theory Spec2Isabelle
  imports Complex_Main "HOL-Library.Char_ord" "HOL-Library.Monad_Syntax" "HOL-Library.Log_Nat"
begin

chapter \<open>The log reader of pgmetrics (collector/log.go)\<close>

text \<open>
  The Go file \<^verbatim>\<open>collector/log.go\<close> reads the tail of a PostgreSQL log file, cuts it
  into prefixed lines with a regular expression compiled from \<^verbatim>\<open>log_line_prefix\<close>,
  assembles the lines into entries and extracts auto_explain plans, autovacuum runs
  and deadlocks. Byte strings and Go strings are \<^typ>\<open>string\<close> (lists of 8-bit
  characters). The functions of the Go standard library that the file calls
  (\<^verbatim>\<open>regexp\<close>, \<^verbatim>\<open>strconv\<close>, \<^verbatim>\<open>strings\<close>, \<^verbatim>\<open>time\<close>) are modelled first, from their
  documentation; \<^verbatim>\<open>encoding/json\<close>, the clock, the local time zone and the file system
  are inputs of the model.
\<close>

section \<open>Go's regexp package\<close>

subsection \<open>Abstract syntax and matching\<close>

text \<open>
  The fragment of RE2 syntax that the patterns of log.go use: literals, character
  classes, \<^verbatim>\<open>^\<close> and \<^verbatim>\<open>$\<close> (without the multi-line flag), concatenation, alternation,
  greedy repetition with bounds and capture groups. Text is matched byte by byte.
\<close>

datatype regex =
    Eps
  | Lit char
  | Cls bool "(char \<times> char) list"
  | Bol
  | Eol
  | Seq regex regex
  | Alt regex regex
  | Rep regex nat "nat option"
  | Grp nat regex

text \<open>A capture is (group, start, end); the most recent one of a group comes first.\<close>

type_synonym caps = "(nat \<times> nat \<times> nat) list"

text \<open>A matcher state: the offset reached, the text still to be read, the captures.\<close>

type_synonym mstate = "nat \<times> string \<times> caps"

fun in_ranges :: "(char \<times> char) list \<Rightarrow> char \<Rightarrow> bool" where
  "in_ranges [] c = False"
| "in_ranges ((lo, hi) # rs) c = ((lo \<le> c \<and> c \<le> hi) \<or> in_ranges rs c)"

fun rsz :: "regex \<Rightarrow> nat" where
  "rsz (Seq a b) = Suc (rsz a + rsz b)"
| "rsz (Alt a b) = Suc (rsz a + rsz b)"
| "rsz (Rep r lo hi) = Suc (rsz r + lo + (case hi of None \<Rightarrow> 0 | Some h \<Rightarrow> h))"
| "rsz (Grp i r) = Suc (rsz r)"
| "rsz _ = 0"

text \<open>
  \<open>ms r st\<close> lists the states in which a match of \<open>r\<close> begun in \<open>st\<close> can end, in the
  order in which a backtracking search tries them (Go's leftmost-first preference:
  the left alternative first, one more iteration of a greedy repetition first). An
  unbounded repetition does not repeat an iteration that read nothing.
\<close>

function ms :: "regex \<Rightarrow> mstate \<Rightarrow> mstate list" where
  "ms Eps st = [st]"
| "ms (Lit c) (p, s, cs) =
     (case s of [] \<Rightarrow> [] | x # xs \<Rightarrow> if x = c then [(Suc p, xs, cs)] else [])"
| "ms (Cls neg rs) (p, s, cs) =
     (case s of [] \<Rightarrow> []
      | x # xs \<Rightarrow> if in_ranges rs x \<noteq> neg then [(Suc p, xs, cs)] else [])"
| "ms Bol (p, s, cs) = (if p = 0 then [(p, s, cs)] else [])"
| "ms Eol (p, s, cs) = (if s = [] then [(p, s, cs)] else [])"
| "ms (Seq a b) st = concat (map (ms b) (ms a st))"
| "ms (Alt a b) st = ms a st @ ms b st"
| "ms (Grp i r) (p, s, cs) =
     map (\<lambda>(p', s', cs'). (p', s', (i, p, p') # cs')) (ms r (p, s, cs))"
| "ms (Rep r lo hi) (p, s, cs) =
     (if 0 < lo then
        concat (map (ms (Rep r (lo - 1) (map_option (\<lambda>h. h - 1) hi))) (ms r (p, s, cs)))
      else if hi = Some 0 then [(p, s, cs)]
      else concat (map (\<lambda>(p', s', cs').
                     if hi = None \<and> \<not> length s' < length s then []
                     else ms (Rep r 0 (map_option (\<lambda>h. h - 1) hi)) (p', s', cs'))
                   (ms r (p, s, cs))) @ [(p, s, cs)])"
  by pat_completeness auto
termination
  apply (relation "inv_image (less_than <*lex*> less_than) (\<lambda>(r, p, s, cs). (rsz r, length s))")
   apply (auto split: option.splits)
  done

text \<open>The leftmost match: the first start offset at which the pattern matches.\<close>

fun findFrom :: "regex \<Rightarrow> nat \<Rightarrow> string \<Rightarrow> (nat \<times> nat \<times> caps) option" where
  "findFrom r p [] =
     (case ms r (p, [], []) of [] \<Rightarrow> None | (p', s', c) # _ \<Rightarrow> Some (p, p', c))"
| "findFrom r p (x # xs) =
     (case ms r (p, x # xs, []) of
        [] \<Rightarrow> findFrom r (Suc p) xs
      | (p', s', c) # _ \<Rightarrow> Some (p, p', c))"

subsection \<open>Parsing a pattern\<close>

datatype rx_error =
    ErrMissingParen
  | ErrUnexpectedParen
  | ErrMissingBracket
  | ErrMissingRepeatArgument
  | ErrInvalidRepeatOp
  | ErrInvalidRepeatSize
  | ErrTrailingBackslash
  | ErrInvalidCharRange
  | ErrInvalidEscape
  | ErrInvalidNamedCapture
  | ErrInternalError
  | ErrNotModelled

text \<open>
  \<open>ErrNotModelled\<close> stands for syntax outside the fragment above (flags, non-greedy
  repetition, Unicode and POSIX classes, octal and hexadecimal escapes); no pattern of
  log.go reaches it.
\<close>

text \<open>First pass: a backslash and the character after it form one unit.\<close>

datatype unit = UChr char | UEsc char

fun units :: "string \<Rightarrow> rx_error + unit list" where
  "units [] = Inr []"
| "units [c] = (if c = CHR 0x5C then Inl ErrTrailingBackslash else Inr [UChr c])"
| "units (c # d # cs) =
     (if c = CHR 0x5C then map_sum id ((#) (UEsc d)) (units cs)
      else map_sum id ((#) (UChr c)) (units (d # cs)))"

definition isalnum :: "char \<Rightarrow> bool" where
  "isalnum c = ((CHR ''0'' \<le> c \<and> c \<le> CHR ''9'') \<or> (CHR ''A'' \<le> c \<and> c \<le> CHR ''Z'')
                \<or> (CHR ''a'' \<le> c \<and> c \<le> CHR ''z''))"

definition isdigit :: "char \<Rightarrow> bool" where
  "isdigit c = (CHR ''0'' \<le> c \<and> c \<le> CHR ''9'')"

definition perl_d :: "(char \<times> char) list" where
  "perl_d = [(CHR ''0'', CHR ''9'')]"

definition perl_s :: "(char \<times> char) list" where
  "perl_s = [(CHR 0x09, CHR 0x0A), (CHR 0x0C, CHR 0x0D), (CHR '' '', CHR '' '')]"

definition perl_w :: "(char \<times> char) list" where
  "perl_w = [(CHR ''0'', CHR ''9''), (CHR ''A'', CHR ''Z''), (CHR ''_'', CHR ''_''),
             (CHR ''a'', CHR ''z'')]"

text \<open>An escape is a character or a Perl class (its ranges, and whether negated).\<close>

datatype esc = EChar char | EClass bool "(char \<times> char) list"

definition escape :: "char \<Rightarrow> rx_error + esc" where
  "escape c =
    (if c = CHR ''d'' then Inr (EClass False perl_d)
     else if c = CHR ''D'' then Inr (EClass True perl_d)
     else if c = CHR ''s'' then Inr (EClass False perl_s)
     else if c = CHR ''S'' then Inr (EClass True perl_s)
     else if c = CHR ''w'' then Inr (EClass False perl_w)
     else if c = CHR ''W'' then Inr (EClass True perl_w)
     else if c = CHR ''n'' then Inr (EChar (CHR 0x0A))
     else if c = CHR ''t'' then Inr (EChar (CHR 0x09))
     else if c = CHR ''r'' then Inr (EChar (CHR 0x0D))
     else if c = CHR ''f'' then Inr (EChar (CHR 0x0C))
     else if c = CHR ''v'' then Inr (EChar (CHR 0x0B))
     else if c = CHR ''a'' then Inr (EChar (CHR 0x07))
     else if c < CHR 0x80 \<and> \<not> isalnum c then Inr (EChar c)
     else Inl ErrNotModelled)"

text \<open>
  The items of a bracket expression, after \<^verbatim>\<open>[\<close> or \<^verbatim>\<open>[^\<close>: a \<^verbatim>\<open>]\<close> closes it unless it
  is the first item; \<^verbatim>\<open>a-b\<close> is a range unless the \<^verbatim>\<open>-\<close> is last.
\<close>

fun classItems :: "bool \<Rightarrow> (char \<times> char) list \<Rightarrow> unit list
    \<Rightarrow> rx_error + ((char \<times> char) list \<times> unit list)" where
  "classItems first acc [] = Inl ErrMissingBracket"
| "classItems first acc (u # UChr m # u2 # t) =
     (if u = UChr (CHR '']'') \<and> \<not> first then Inr (acc, UChr m # u2 # t)
      else case (case u of UChr c \<Rightarrow> Inr (EChar c) | UEsc c \<Rightarrow> escape c) of
        Inl e \<Rightarrow> Inl e
      | Inr (EClass neg rs) \<Rightarrow>
          (if neg then Inl ErrNotModelled else classItems False (acc @ rs) (UChr m # u2 # t))
      | Inr (EChar lo) \<Rightarrow>
          (if m = CHR ''-'' \<and> u2 \<noteq> UChr (CHR '']'') then
             (case (case u2 of UChr c \<Rightarrow> Inr (EChar c) | UEsc c \<Rightarrow> escape c) of
                Inl e \<Rightarrow> Inl e
              | Inr (EClass neg rs) \<Rightarrow> Inl ErrInvalidEscape
              | Inr (EChar hi) \<Rightarrow>
                  (if hi < lo then Inl ErrInvalidCharRange
                   else classItems False (acc @ [(lo, hi)]) t))
           else classItems False (acc @ [(lo, lo)]) (UChr m # u2 # t)))"
| "classItems first acc (u # t) =
     (if u = UChr (CHR '']'') \<and> \<not> first then Inr (acc, t)
      else case (case u of UChr c \<Rightarrow> Inr (EChar c) | UEsc c \<Rightarrow> escape c) of
        Inl e \<Rightarrow> Inl e
      | Inr (EClass neg rs) \<Rightarrow>
          (if neg then Inl ErrNotModelled else classItems False (acc @ rs) t)
      | Inr (EChar lo) \<Rightarrow> classItems False (acc @ [(lo, lo)]) t)"

definition lexClass :: "unit list \<Rightarrow> rx_error + (regex \<times> unit list)" where
  "lexClass us =
    (let neg = (case us of UChr c # t \<Rightarrow> c = CHR ''^'' | _ \<Rightarrow> False) in
     case classItems True [] (if neg then tl us else us) of
       Inl e \<Rightarrow> Inl e
     | Inr (rs, rest) \<Rightarrow> Inr (Cls neg rs, rest))"

text \<open>Decimal numbers of a repetition: no leading zero; the value of the digits.\<close>

definition udigit :: "unit \<Rightarrow> bool" where
  "udigit u = (case u of UChr c \<Rightarrow> isdigit c | UEsc c \<Rightarrow> False)"

definition digitval :: "char \<Rightarrow> nat" where
  "digitval c = of_char c - 48"

definition uval :: "unit list \<Rightarrow> nat" where
  "uval ds = foldl (\<lambda>a u. 10 * a + (case u of UChr c \<Rightarrow> digitval c | UEsc c \<Rightarrow> 0)) 0 ds"

definition validInt :: "unit list \<Rightarrow> bool" where
  "validInt ds = (ds \<noteq> [] \<and> \<not> (2 \<le> length ds \<and> hd ds = UChr (CHR ''0'')))"

text \<open>
  \<open>lexRepeat\<close> reads \<^verbatim>\<open>n}\<close>, \<^verbatim>\<open>n,}\<close> or \<^verbatim>\<open>n,m}\<close> after an opening brace; when the text is
  none of these the brace is a literal.
\<close>

definition lexRepeat :: "unit list \<Rightarrow> (nat \<times> nat option \<times> unit list) option" where
  "lexRepeat us =
    (let ds1 = takeWhile udigit us; r1 = dropWhile udigit us in
     if \<not> validInt ds1 then None
     else case r1 of
       UChr c # r2 \<Rightarrow>
         (if c = CHR ''}'' then Some (uval ds1, Some (uval ds1), r2)
          else if c = CHR '','' then
            (case r2 of
               UChr c2 # r3 \<Rightarrow>
                 (if c2 = CHR ''}'' then Some (uval ds1, None, r3)
                  else let ds2 = takeWhile udigit r2; r4 = dropWhile udigit r2 in
                    if \<not> validInt ds2 then None
                    else (case r4 of
                            UChr c3 # r5 \<Rightarrow>
                              if c3 = CHR ''}'' then Some (uval ds1, Some (uval ds2), r5)
                              else None
                          | _ \<Rightarrow> None))
             | _ \<Rightarrow> None)
          else None)
     | _ \<Rightarrow> None)"

text \<open>The name of \<^verbatim>\<open>(?P<name>\<close>: word characters up to the closing \<^verbatim>\<open>>\<close>.\<close>

definition uword :: "unit \<Rightarrow> bool" where
  "uword u = (case u of UChr c \<Rightarrow> isalnum c \<or> c = CHR ''_'' | UEsc c \<Rightarrow> False)"

definition lexName :: "unit list \<Rightarrow> rx_error + (string \<times> unit list)" where
  "lexName us =
    (let nm = takeWhile uword us; r = dropWhile uword us in
     case r of
       UChr c # rest \<Rightarrow>
         (if c = CHR ''>'' \<and> nm \<noteq> []
          then Inr (map (\<lambda>u. case u of UChr c \<Rightarrow> c | UEsc c \<Rightarrow> c) nm, rest)
          else Inl ErrInvalidNamedCapture)
     | _ \<Rightarrow> Inl ErrInvalidNamedCapture)"

datatype token =
    TAtom regex
  | TOpen "string option"
  | TClose
  | TBar
  | TRep nat "nat option"

lemma classItems_length:
  "classItems first acc us = Inr (rs, rest) \<Longrightarrow> length rest < length us"
  by (induction first acc us arbitrary: rs rest rule: classItems.induct)
     (fastforce split: if_splits sum.splits esc.splits)+

lemma lexClass_length: "lexClass us = Inr (r, rest) \<Longrightarrow> length rest \<le> length us"
  by (auto simp: lexClass_def Let_def split: sum.splits if_splits dest!: classItems_length)

lemma lexRepeat_length: "lexRepeat us = Some (lo, hi, rest) \<Longrightarrow> length rest \<le> length us"
proof -
  have d: "\<And>xs. length (dropWhile udigit xs) \<le> length xs"
    by (simp add: length_dropWhile_le)
  have c: "\<And>xs x ys. dropWhile udigit xs = x # ys \<Longrightarrow> length ys < length xs"
    using d by (metis Suc_le_lessD length_Cons)
  assume "lexRepeat us = Some (lo, hi, rest)"
  then show ?thesis
    by (auto simp: lexRepeat_def Let_def split: if_splits list.splits unit.splits
        dest!: c)
qed

lemma lexName_length: "lexName us = Inr (nm, rest) \<Longrightarrow> length rest \<le> length us"
proof -
  have d: "\<And>xs. length (dropWhile uword xs) \<le> length xs"
    by (simp add: length_dropWhile_le)
  have c: "\<And>xs x ys. dropWhile uword xs = x # ys \<Longrightarrow> length ys < length xs"
    using d by (metis Suc_le_lessD length_Cons)
  assume "lexName us = Inr (nm, rest)"
  then show ?thesis
    by (auto simp: lexName_def Let_def split: if_splits list.splits unit.splits dest!: c)
qed


text \<open>Second pass: from units to tokens.\<close>

definition tcons :: "token \<Rightarrow> rx_error + token list \<Rightarrow> rx_error + token list" where
  "tcons t r = (case r of Inl e \<Rightarrow> Inl e | Inr ts \<Rightarrow> Inr (t # ts))"

function lex :: "unit list \<Rightarrow> rx_error + token list" where
  "lex [] = Inr []"
| "lex (UEsc c # us) =
     (case escape c of
        Inl e \<Rightarrow> Inl e
      | Inr (EChar x) \<Rightarrow> tcons (TAtom (Lit x)) (lex us)
      | Inr (EClass neg rs) \<Rightarrow> tcons (TAtom (Cls neg rs)) (lex us))"
| "lex (UChr c # us) =
     (if c = CHR ''['' then
        (case lexClass us of
           Inl e \<Rightarrow> Inl e
         | Inr (r, rest) \<Rightarrow> tcons (TAtom r) (lex rest))
      else if c = CHR ''('' then
        (case us of
           UChr q # UChr k # us2 \<Rightarrow>
             (if q \<noteq> CHR ''?'' then tcons (TOpen (Some [])) (lex us)
              else if k = CHR '':'' then tcons (TOpen None) (lex us2)
              else if k = CHR ''P'' then
                (case us2 of
                   UChr l # us3 \<Rightarrow>
                     (if l = CHR ''<'' then
                        (case lexName us3 of
                           Inl e \<Rightarrow> Inl e
                         | Inr (nm, rest) \<Rightarrow> tcons (TOpen (Some nm)) (lex rest))
                      else Inl ErrNotModelled)
                 | _ \<Rightarrow> Inl ErrNotModelled)
              else Inl ErrNotModelled)
         | UChr q # us1 \<Rightarrow>
             (if q \<noteq> CHR ''?'' then tcons (TOpen (Some [])) (lex us)
              else Inl ErrNotModelled)
         | _ \<Rightarrow> tcons (TOpen (Some [])) (lex us))
      else if c = CHR '')'' then tcons TClose (lex us)
      else if c = CHR ''|'' then tcons TBar (lex us)
      else if c = CHR ''*'' then tcons (TRep 0 None) (lex us)
      else if c = CHR ''+'' then tcons (TRep 1 None) (lex us)
      else if c = CHR ''?'' then tcons (TRep 0 (Some 1)) (lex us)
      else if c = CHR ''{'' then
        (case lexRepeat us of
           None \<Rightarrow> tcons (TAtom (Lit c)) (lex us)
         | Some (lo, hi, rest) \<Rightarrow>
             (if 1000 < lo \<or> (case hi of None \<Rightarrow> False | Some h \<Rightarrow> 1000 < h \<or> h < lo)
              then Inl ErrInvalidRepeatSize
              else tcons (TRep lo hi) (lex rest)))
      else if c = CHR ''.'' then tcons (TAtom (Cls True [(CHR 0x0A, CHR 0x0A)])) (lex us)
      else if c = CHR ''^'' then tcons (TAtom Bol) (lex us)
      else if c = CHR ''$'' then tcons (TAtom Eol) (lex us)
      else tcons (TAtom (Lit c)) (lex us))"
  by pat_completeness auto
termination
  apply (relation "measure length")
  apply (auto dest: lexClass_length lexRepeat_length lexName_length)
  done

text \<open>
  Third pass: a stack of open groups. A frame holds the kind of the group, its finished
  alternatives and the items of the current alternative, last item first.
\<close>

datatype fkind = FBase | FNon | FCap nat

datatype frame = Frame fkind "regex list" "regex list"

fun mkSeq :: "regex list \<Rightarrow> regex" where
  "mkSeq [] = Eps"
| "mkSeq [r] = r"
| "mkSeq (r # rs) = Seq r (mkSeq rs)"

fun mkAlt :: "regex list \<Rightarrow> regex" where
  "mkAlt [] = Eps"
| "mkAlt [r] = r"
| "mkAlt (r # rs) = Alt r (mkAlt rs)"

definition closeFrame :: "fkind \<Rightarrow> regex list \<Rightarrow> regex list \<Rightarrow> regex" where
  "closeFrame g alts cur =
    (let body = mkAlt (alts @ [mkSeq (rev cur)]) in
     case g of FCap i \<Rightarrow> Grp i body | _ \<Rightarrow> body)"

text \<open>
  \<open>parse ts stack n names q\<close>: \<open>n\<close> capture groups have been opened, \<open>names\<close> are their
  names (entry 0 is the whole match), \<open>q\<close> says that the last token was a repetition.
\<close>

fun parse :: "token list \<Rightarrow> frame list \<Rightarrow> nat \<Rightarrow> string list \<Rightarrow> bool
    \<Rightarrow> rx_error + (regex \<times> string list)" where
  "parse ts [] n names q = Inl ErrInternalError"
| "parse [] (Frame g alts cur # stk) n names q =
     (if stk = [] then Inr (closeFrame g alts cur, names) else Inl ErrMissingParen)"
| "parse (TAtom r # ts) (Frame g alts cur # stk) n names q =
     parse ts (Frame g alts (r # cur) # stk) n names False"
| "parse (TRep lo hi # ts) (Frame g alts cur # stk) n names q =
     (case cur of
        [] \<Rightarrow> Inl ErrMissingRepeatArgument
      | x # xs \<Rightarrow>
          if q then (if lo = 0 \<and> hi = Some 1 then Inl ErrNotModelled else Inl ErrInvalidRepeatOp)
          else parse ts (Frame g alts (Rep x lo hi # xs) # stk) n names True)"
| "parse (TOpen None # ts) stk n names q = parse ts (Frame FNon [] [] # stk) n names False"
| "parse (TOpen (Some nm) # ts) stk n names q =
     parse ts (Frame (FCap (Suc n)) [] [] # stk) (Suc n) (names @ [nm]) False"
| "parse (TBar # ts) (Frame g alts cur # stk) n names q =
     parse ts (Frame g (alts @ [mkSeq (rev cur)]) [] # stk) n names False"
| "parse (TClose # ts) (Frame g alts cur # stk) n names q =
     (case stk of
        [] \<Rightarrow> Inl ErrUnexpectedParen
      | Frame g' alts' cur' # stk' \<Rightarrow>
          parse ts (Frame g' alts' (closeFrame g alts cur # cur') # stk') n names False)"

subsection \<open>The functions of the package that log.go calls\<close>

record regexp =
  re :: regex
  subexpNames :: "string list"

definition regexp_Compile :: "string \<Rightarrow> rx_error + regexp" where
  "regexp_Compile pat =
    (case units pat of
       Inl e \<Rightarrow> Inl e
     | Inr us \<Rightarrow>
         (case lex us of
            Inl e \<Rightarrow> Inl e
          | Inr ts \<Rightarrow>
              (case parse ts [Frame FBase [] []] 0 [[]] False of
                 Inl e \<Rightarrow> Inl e
               | Inr (r, nms) \<Rightarrow> Inr \<lparr>re = r, subexpNames = nms\<rparr>)))"

text \<open>
  \<^verbatim>\<open>MustCompile\<close> panics on a pattern that does not parse, when the package is
  initialised; the lemmas \<open>rx*_compiled\<close> below show that none of the patterns of log.go
  does. The model gives such a pattern the regexp that matches nothing.
\<close>

definition regexp_MustCompile :: "string \<Rightarrow> regexp" where
  "regexp_MustCompile pat =
    (case regexp_Compile pat of
       Inl e \<Rightarrow> \<lparr>re = Cls False [], subexpNames = [[]]\<rparr>
     | Inr r \<Rightarrow> r)"

text \<open>The text of each group of a match; a group that took no part gives the empty text.\<close>

fun groupTexts :: "string \<Rightarrow> caps \<Rightarrow> nat \<Rightarrow> string list \<Rightarrow> string list" where
  "groupTexts b c i [] = []"
| "groupTexts b c i (n # ns) =
     (case map_of c i of
        None \<Rightarrow> []
      | Some (gs, ge) \<Rightarrow> take (ge - gs) (drop gs b)) # groupTexts b c (Suc i) ns"

definition FindIndex :: "regexp \<Rightarrow> string \<Rightarrow> (nat \<times> nat) option" where
  "FindIndex rx b =
    (case findFrom (re rx) 0 b of None \<Rightarrow> None | Some (s, e, c) \<Rightarrow> Some (s, e))"

definition FindSubmatch :: "regexp \<Rightarrow> string \<Rightarrow> string list option" where
  "FindSubmatch rx b =
    (case findFrom (re rx) 0 b of
       None \<Rightarrow> None
     | Some (s, e, c) \<Rightarrow> Some (groupTexts b ((0, s, e) # c) 0 (subexpNames rx)))"

definition FindStringSubmatch :: "regexp \<Rightarrow> string \<Rightarrow> string list option" where
  "FindStringSubmatch rx s = FindSubmatch rx s"

definition MatchString :: "regexp \<Rightarrow> string \<Rightarrow> bool" where
  "MatchString rx s = (findFrom (re rx) 0 s \<noteq> None)"

text \<open>
  \<^verbatim>\<open>QuoteMeta\<close> puts a backslash before a backslash and before each of
  \<^verbatim>\<open>.+*?()|[]{}^$\<close>.
\<close>

definition special :: "char \<Rightarrow> bool" where
  "special c = (c \<in> set (CHR 0x5C # ''.+*?()|[]{}^$''))"

fun QuoteMeta :: "string \<Rightarrow> string" where
  "QuoteMeta [] = []"
| "QuoteMeta (c # cs) = (if special c then CHR 0x5C # c # QuoteMeta cs else c # QuoteMeta cs)"


section \<open>Go's strings and strconv packages\<close>

text \<open>\<^verbatim>\<open>strings.Split(s, sep)\<close> for a separator of one character.\<close>

fun Split :: "string \<Rightarrow> char \<Rightarrow> string list" where
  "Split [] sep = [[]]"
| "Split (x # xs) sep =
     (if x = sep then [] # Split xs sep
      else case Split xs sep of [] \<Rightarrow> [[x]] | p # ps \<Rightarrow> (x # p) # ps)"

text \<open>\<^verbatim>\<open>strings.SplitN(s, sep, 2)\<close>: cut at the first separator, if there is one.\<close>

definition SplitN2 :: "string \<Rightarrow> char \<Rightarrow> string list" where
  "SplitN2 s sep =
    (if sep \<in> set s then [takeWhile (\<lambda>c. c \<noteq> sep) s, tl (dropWhile (\<lambda>c. c \<noteq> sep) s)]
     else [s])"

text \<open>\<^verbatim>\<open>strings.ReplaceAll(s, old, "")\<close> for an \<^verbatim>\<open>old\<close> of one character.\<close>

definition RemoveAll :: "string \<Rightarrow> char \<Rightarrow> string" where
  "RemoveAll s old = filter (\<lambda>c. c \<noteq> old) s"

datatype num_error = ErrSyntax | ErrRange

definition digitsval :: "string \<Rightarrow> int" where
  "digitsval ds = foldl (\<lambda>a c. 10 * a + int (digitval c)) 0 ds"

text \<open>
  \<^verbatim>\<open>strconv.ParseInt(s, 10, 64)\<close>: an optional sign, then one or more decimal digits; a
  value that does not fit a signed 64-bit integer is a range error.
\<close>

definition ParseInt :: "string \<Rightarrow> num_error + int" where
  "ParseInt s =
    (let neg = (s \<noteq> [] \<and> hd s = CHR ''-'');
         ds = (if s \<noteq> [] \<and> (hd s = CHR ''-'' \<or> hd s = CHR ''+'') then tl s else s)
     in if ds = [] \<or> \<not> list_all isdigit ds then Inl ErrSyntax
        else if neg then
          (if 9223372036854775808 < digitsval ds then Inl ErrRange else Inr (- digitsval ds))
        else
          (if 9223372036854775807 < digitsval ds then Inl ErrRange else Inr (digitsval ds)))"

text \<open>
  \<^verbatim>\<open>strconv.ParseFloat(s, 64)\<close> on the texts that log.go gives it, which consist of digits
  and dots: digits with at most one dot, and at least one digit, denote a decimal
  fraction; anything else is a syntax error. The value is the exact decimal fraction;
  its rounding to a float64 (and the overflow of a very long text) is not modelled.
\<close>

definition ParseFloat :: "string \<Rightarrow> num_error + rat" where
  "ParseFloat s =
    (let ip = takeWhile isdigit s; r = dropWhile isdigit s;
         fp = (if r \<noteq> [] \<and> hd r = CHR ''.'' then tl r else r)
     in if (ip = [] \<and> fp = []) \<or> \<not> list_all isdigit fp then Inl ErrSyntax
        else Inr (of_int (digitsval (ip @ fp)) / of_int (10 ^ length fp)))"

section \<open>Go's time package\<close>

text \<open>
  A \<^verbatim>\<open>time.Time\<close> is an instant: the seconds since 1 January of year 1, 00:00:00 UTC, as
  a signed 64-bit integer, and the nanoseconds within the second. The location of a
  time plays no part in \<^verbatim>\<open>Before\<close>, \<^verbatim>\<open>IsZero\<close> and \<^verbatim>\<open>Unix\<close> and is left out.
\<close>

record gotime =
  ext :: int
  nsec :: int

definition wrap64 :: "int \<Rightarrow> int" where
  "wrap64 x = (x + 9223372036854775808) mod 18446744073709551616 - 9223372036854775808"

definition unixToInternal :: int where
  "unixToInternal = 62135596800"

definition zeroTime :: gotime where
  "zeroTime = \<lparr>ext = 0, nsec = 0\<rparr>"

definition IsZero :: "gotime \<Rightarrow> bool" where
  "IsZero t = (ext t = 0 \<and> nsec t = 0)"

definition Before :: "gotime \<Rightarrow> gotime \<Rightarrow> bool" where
  "Before t u = (ext t < ext u \<or> (ext t = ext u \<and> nsec t < nsec u))"

definition Unix :: "gotime \<Rightarrow> int" where
  "Unix t = wrap64 (ext t - unixToInternal)"

text \<open>Go's integer division truncates toward zero.\<close>

definition quo :: "int \<Rightarrow> int \<Rightarrow> int" where
  "quo a b = (if a < 0 then - ((- a) div b) else a div b)"

text \<open>\<^verbatim>\<open>time.Unix(sec, nsec)\<close> carries a nanosecond count outside [0, 1e9) into the seconds.\<close>

definition time_Unix :: "int \<Rightarrow> int \<Rightarrow> gotime" where
  "time_Unix sec ns =
    (if ns < 0 \<or> 1000000000 \<le> ns then
       (let n = quo ns 1000000000;
            sec1 = wrap64 (sec + n);
            ns1 = ns - n * 1000000000
        in if ns1 < 0 then \<lparr>ext = wrap64 (wrap64 (sec1 - 1) + unixToInternal), nsec = ns1 + 1000000000\<rparr>
           else \<lparr>ext = wrap64 (sec1 + unixToInternal), nsec = ns1\<rparr>)
     else \<lparr>ext = wrap64 (sec + unixToInternal), nsec = ns\<rparr>)"

text \<open>\<^verbatim>\<open>t.Add(d)\<close> for a duration of \<open>d\<close> nanoseconds.\<close>

definition Add :: "gotime \<Rightarrow> int \<Rightarrow> gotime" where
  "Add t d =
    (let dsec = quo d 1000000000;
         ns = nsec t + (d - dsec * 1000000000)
     in if 1000000000 \<le> ns then \<lparr>ext = wrap64 (ext t + (dsec + 1)), nsec = ns - 1000000000\<rparr>
        else if ns < 0 then \<lparr>ext = wrap64 (ext t + (dsec - 1)), nsec = ns + 1000000000\<rparr>
        else \<lparr>ext = wrap64 (ext t + dsec), nsec = ns\<rparr>)"

definition isLeap :: "int \<Rightarrow> bool" where
  "isLeap y = (y mod 4 = 0 \<and> (y mod 100 \<noteq> 0 \<or> y mod 400 = 0))"

definition daysIn :: "int \<Rightarrow> int \<Rightarrow> int" where
  "daysIn m y =
    (if m = 2 then (if isLeap y then 29 else 28)
     else if m = 4 \<or> m = 6 \<or> m = 9 \<or> m = 11 then 30 else 31)"

text \<open>The days from 1 January 1970 to a day of the proleptic Gregorian calendar.\<close>

definition daysFromCivil :: "int \<Rightarrow> int \<Rightarrow> int \<Rightarrow> int" where
  "daysFromCivil y m d =
    (let y1 = (if m \<le> 2 then y - 1 else y);
         era = y1 div 400;
         yoe = y1 - era * 400;
         doy = (153 * (if 2 < m then m - 3 else m + 9) + 2) div 5 + d - 1;
         doe = yoe * 365 + yoe div 4 - yoe div 100 + doy
     in era * 146097 + doe - 719468)"

text \<open>\<^verbatim>\<open>time.Date(y, m, d, h, mi, s, ns, time.UTC)\<close> for fields that are in range.\<close>

definition Date :: "int \<Rightarrow> int \<Rightarrow> int \<Rightarrow> int \<Rightarrow> int \<Rightarrow> int \<Rightarrow> int \<Rightarrow> gotime" where
  "Date y m d h mi s ns =
    \<lparr>ext = daysFromCivil y m d * 86400 + h * 3600 + mi * 60 + s + unixToInternal, nsec = ns\<rparr>"

subsection \<open>Parsing a time\<close>

text \<open>One or two digits; two are required when \<open>fixed\<close>.\<close>

definition getnum :: "string \<Rightarrow> bool \<Rightarrow> (int \<times> string) option" where
  "getnum s fixed =
    (case s of
       [] \<Rightarrow> None
     | a # r \<Rightarrow>
         if \<not> isdigit a then None
         else (case r of
                 [] \<Rightarrow> if fixed then None else Some (int (digitval a), r)
               | b # r2 \<Rightarrow>
                   if \<not> isdigit b then (if fixed then None else Some (int (digitval a), r))
                   else Some (int (digitval a) * 10 + int (digitval b), r2)))"

text \<open>A literal character of the layout; a space of the layout takes all leading spaces.\<close>

definition skipChar :: "char \<Rightarrow> string \<Rightarrow> string option" where
  "skipChar c v = (case v of [] \<Rightarrow> None | x # xs \<Rightarrow> if x = c then Some xs else None)"

definition skipSpace :: "string \<Rightarrow> string option" where
  "skipSpace v =
    (case v of
       [] \<Rightarrow> Some []
     | x # xs \<Rightarrow> if x = CHR '' '' then Some (dropWhile (\<lambda>c. c = CHR '' '') v) else None)"

definition commaOrPeriod :: "char \<Rightarrow> bool" where
  "commaOrPeriod c = (c = CHR ''.'' \<or> c = CHR '','')"

text \<open>
  \<open>parseNanoseconds v n\<close> reads the first \<open>n\<close> characters of \<open>v\<close>, a separator and
  digits (at most nine are used), as a fraction of a second.
\<close>

definition parseNanoseconds :: "string \<Rightarrow> nat \<Rightarrow> int option" where
  "parseNanoseconds v n =
    (if v = [] \<or> \<not> commaOrPeriod (hd v) then None
     else let nb = min n 10; ds = take (nb - 1) (tl v) in
       case ParseInt ds of
         Inl e \<Rightarrow> None
       | Inr ns \<Rightarrow> if ns < 0 then None else Some (ns * 10 ^ (10 - nb)))"

text \<open>The length of the time zone abbreviation at the head of a text, if there is one.\<close>

definition isUpper :: "char \<Rightarrow> bool" where
  "isUpper c = (CHR ''A'' \<le> c \<and> c \<le> CHR ''Z'')"

definition parseSignedOffset :: "string \<Rightarrow> nat" where
  "parseSignedOffset v =
    (case v of
       [] \<Rightarrow> 0
     | sign # r \<Rightarrow>
         if sign \<noteq> CHR ''-'' \<and> sign \<noteq> CHR ''+'' then 0
         else let ds = takeWhile isdigit r in
           if ds = [] \<or> 23 < digitsval ds then 0 else Suc (length ds))"

definition parseTimeZone :: "string \<Rightarrow> nat option" where
  "parseTimeZone v =
    (if length v < 3 then None
     else if take 4 v = ''ChST'' \<or> take 4 v = ''MeST'' then Some 4
     else if take 3 v = ''GMT'' then
       (if length v = 3 then Some 3 else Some (3 + parseSignedOffset (drop 3 v)))
     else if hd v = CHR ''+'' \<or> hd v = CHR ''-'' then
       (if 0 < parseSignedOffset v then Some (parseSignedOffset v) else None)
     else let nUpper = length (takeWhile isUpper (take 6 v)) in
       if nUpper = 5 then (if v ! 4 = CHR ''T'' then Some 5 else None)
       else if nUpper = 4 then (if v ! 3 = CHR ''T'' \<or> take 4 v = ''WITA'' then Some 4 else None)
       else if nUpper = 3 then Some 3
       else None)"

text \<open>
  The fields of \<^verbatim>\<open>2006-01-02 15:04:05 MST\<close> (and, with \<open>millis\<close>, of
  \<^verbatim>\<open>2006-01-02 15:04:05.000 MST\<close>) read from a text: year, month, day, hour, minute,
  second, nanoseconds and the zone (\<open>None\<close> for UTC). Without \<open>millis\<close> a fraction after
  the seconds is accepted all the same, as \<^verbatim>\<open>time.Parse\<close> does.
\<close>

definition parseFields :: "bool \<Rightarrow> string
    \<Rightarrow> (int \<times> int \<times> int \<times> int \<times> int \<times> int \<times> int \<times> string option) option" where
  "parseFields millis v0 =
    (if length v0 < 4 \<or> \<not> list_all isdigit (take 4 v0) then None
     else do {
       let year = digitsval (take 4 v0);
       v1 \<leftarrow> skipChar (CHR ''-'') (drop 4 v0);
       (month, v2) \<leftarrow> getnum v1 True;
       if month \<le> 0 \<or> 12 < month then None else do {
       v3 \<leftarrow> skipChar (CHR ''-'') v2;
       (day, v4) \<leftarrow> getnum v3 True;
       v5 \<leftarrow> skipSpace v4;
       (hour, v6) \<leftarrow> getnum v5 False;
       if 24 \<le> hour then None else do {
       v7 \<leftarrow> skipChar (CHR '':'') v6;
       (mi, v8) \<leftarrow> getnum v7 True;
       if 60 \<le> mi then None else do {
       v9 \<leftarrow> skipChar (CHR '':'') v8;
       (sec, v10) \<leftarrow> getnum v9 True;
       if 60 \<le> sec then None else do {
       (ns, v11) \<leftarrow>
          (if millis then
             (if length v10 < 4 then None
              else map_option (\<lambda>n. (n, drop 4 v10)) (parseNanoseconds v10 4))
           else if 2 \<le> length v10 \<and> commaOrPeriod (hd v10) \<and> isdigit (v10 ! 1) then
             (let n = 2 + length (takeWhile isdigit (drop 2 v10)) in
              map_option (\<lambda>x. (x, drop n v10)) (parseNanoseconds v10 n))
           else Some (0, v10));
       v12 \<leftarrow> skipSpace v11;
       (zone, v13) \<leftarrow>
          (if take 3 v12 = ''UTC'' then Some (None, drop 3 v12)
           else map_option (\<lambda>n. (Some (take n v12), drop n v12)) (parseTimeZone v12));
       if v13 \<noteq> [] then None
       else if day < 1 \<or> daysIn month year < day then None
       else Some (year, month, day, hour, mi, sec, ns, zone)
     }}}}})"

datatype time_error = ParseError

text \<open>
  \<^verbatim>\<open>time.Parse(layout, value)\<close> for the two layouts of log.go. A zone abbreviation other
  than UTC is looked up in the local time zone of the process, \<open>local name unix\<close>: the
  offset in seconds when the local zone knows the abbreviation; when it does not, Go
  takes the fields as they are, as if they were UTC.
\<close>

definition time_Parse :: "(string \<Rightarrow> int \<Rightarrow> int option) \<Rightarrow> string \<Rightarrow> string
    \<Rightarrow> time_error + gotime" where
  "time_Parse local layout v =
    (if layout \<noteq> ''2006-01-02 15:04:05.000 MST'' \<and> layout \<noteq> ''2006-01-02 15:04:05 MST''
     then Inl ParseError
     else case parseFields (layout = ''2006-01-02 15:04:05.000 MST'') v of
       None \<Rightarrow> Inl ParseError
     | Some (y, m, d, h, mi, s, ns, zone) \<Rightarrow>
         (let t = Date y m d h mi s ns in
          case zone of
            None \<Rightarrow> Inr t
          | Some name \<Rightarrow>
              (case local name (Unix t) of
                 None \<Rightarrow> Inr t
               | Some offset \<Rightarrow> Inr (t\<lparr>ext := ext t - offset\<rparr>))))"


subsection \<open>Conversion between float64 and int64\<close>

text \<open>
  \<open>round53 x\<close> is the float64 nearest to the integer \<open>x\<close> (ties to even): an integer
  below \<open>2^53\<close> in absolute value is a float64; a larger one keeps its 53 leading bits.
\<close>

definition round53 :: "int \<Rightarrow> int" where
  "round53 x =
    (if \<bar>x\<bar> < 9007199254740992 then x
     else let a = \<bar>x\<bar>;
              e = floorlog 2 (nat a) - 53;
              q = a div 2 ^ e;
              r = a mod 2 ^ e;
              h = 2 ^ (e - 1);
              m = (if h < r \<or> (r = h \<and> odd q) then q + 1 else q)
          in sgn x * (m * 2 ^ e))"

text \<open>
  \<^verbatim>\<open>int64(float64(n) * 1e9)\<close>: both the conversion and the product round to a float64.
  A product outside the range of int64 converts to the least int64, as on amd64 (Go
  leaves this case to the implementation).
\<close>

definition int64_of_float64_times_1e9 :: "int \<Rightarrow> int" where
  "int64_of_float64_times_1e9 n =
    (let f = round53 (round53 n * 1000000000) in
     if - 9223372036854775808 \<le> f \<and> f < 9223372036854775808 then f
     else - 9223372036854775808)"

section \<open>The data of log.go\<close>

text \<open>
  Modelled from the spec: the result types \<^verbatim>\<open>pgmetrics.Plan\<close>, \<^verbatim>\<open>pgmetrics.AutoVacuum\<close>,
  \<^verbatim>\<open>pgmetrics.Deadlock\<close> and \<^verbatim>\<open>pgmetrics.Model\<close> and the struct \<^verbatim>\<open>collector\<close> are declared
  in other files of the repository. They have the fields that log.go reads and
  writes, under the names it uses (with a prefix where two structs share a name). A
  setting is represented by its \<^verbatim>\<open>Setting\<close> text.
\<close>

record Plan =
  pDatabase :: string
  pUserName :: string
  pFormat :: string
  pAt :: int
  pQuery :: string
  pPlan :: string

record AutoVacuum =
  avAt :: int
  avTable :: string
  avElapsed :: rat

record Deadlock =
  dAt :: int
  dDetail :: string

record Model =
  Settings :: "string \<rightharpoonup> string"
  Plans :: "Plan list"
  AutoVacuums :: "AutoVacuum list"
  Deadlocks :: "Deadlock list"

record logEntryExtra =
  xlevel :: string
  xline :: string

record logEntry =
  et :: gotime
  euser :: string
  edb :: string
  elevel :: string
  eline :: string
  extra :: "logEntryExtra list"

record collector =
  result :: Model
  logSpan :: nat
  currLog :: logEntry

text \<open>A value decoded by \<^verbatim>\<open>encoding/json\<close> into an \<^verbatim>\<open>interface{}\<close>.\<close>

datatype jvalue =
    JNull
  | JBool bool
  | JNumber string
  | JString string
  | JArray "jvalue list"
  | JObject "(string \<times> jvalue) list"

text \<open>
  What a run reads from outside: the clock (\<^verbatim>\<open>time.Now()\<close>), the local time zone, the
  files by name, and \<^verbatim>\<open>json.Unmarshal\<close> into a \<^verbatim>\<open>map[string]interface{}\<close> with
  \<^verbatim>\<open>json.Marshal\<close> of such a map (\<open>None\<close> when they return an error).
\<close>

record env =
  now :: gotime
  localZone :: "string \<Rightarrow> int \<Rightarrow> int option"
  files :: "string \<rightharpoonup> string"
  json_Unmarshal :: "string \<Rightarrow> (string \<rightharpoonup> jvalue) option"
  json_Marshal :: "(string \<rightharpoonup> jvalue) \<Rightarrow> string option"

datatype error =
    ErrNoTimestamp
  | ErrPattern rx_error
  | ErrOpen
  | ErrEOF
  | ErrUnexpectedEOF
  | ErrTimeParse
  | ErrWrongNFormat string
  | ErrBadTimeFormat string
  | Panic

text \<open>
  \<open>Panic\<close> is a run-time panic (an index out of range); the other errors are the ones
  log.go creates or passes on.
\<close>

section \<open>The patterns of log.go\<close>

definition bs :: char where "bs = CHR 0x5C"
definition dq :: char where "dq = CHR 0x22"

definition rxLogLevel :: regexp where
  "rxLogLevel = regexp_MustCompile (''^([A-Z]+):'' @ bs # ''s+'')"

definition rxAEStart :: regexp where
  "rxAEStart = regexp_MustCompile
     (''^duration: [0-9]+'' @ bs # ''.[0-9]+ ms  plan:'' @ bs # ''n[ '' @ bs # ''t]+({[ ''
      @ bs # ''t]*'' @ bs # ''n)?(<explain xml.*'' @ bs # ''n)?(Query Text: '' @ dq # ''.*''
      @ dq # bs # ''n)?(Query Text: [^'' @ dq # ''].*'' @ bs # ''n)?'')"

definition rxAESwitch1 :: regexp where
  "rxAESwitch1 = regexp_MustCompile (''^'' @ bs # ''s+Query Text: (.*)$'')"

definition rxAESwitch2 :: regexp where
  "rxAESwitch2 = regexp_MustCompile (''cost='' @ bs # ''d+.*rows='' @ bs # ''d'')"

definition rxAVStart :: regexp where
  "rxAVStart = regexp_MustCompile
     (''automatic (aggressive )?vacuum (to prevent wraparound)?of table '' @ dq # ''([^''
      @ dq # '']+)'' @ dq # '': index'')"

definition rxAVElapsed :: regexp where
  "rxAVElapsed = regexp_MustCompile '', elapsed: ([0-9.]+) s''"


section \<open>compilePrefix\<close>

text \<open>
  \<^verbatim>\<open>string(prefix[i])\<close> converts a byte to the UTF-8 text of the code point of that
  number: one byte below 0x80, two bytes from there on.
\<close>

definition string_of_byte :: "char \<Rightarrow> string" where
  "string_of_byte c =
    (if c < CHR 0x80 then [c]
     else [char_of (192 + (of_char c :: nat) div 64), char_of (128 + (of_char c :: nat) mod 64)])"

text \<open>The pattern text that the \<^verbatim>\<open>switch\<close> appends for the character after a \<^verbatim>\<open>%\<close>.\<close>

definition directive :: "char \<Rightarrow> bool \<times> bool \<times> string \<Rightarrow> bool \<times> bool \<times> string" where
  "directive d st =
    (case st of (ts, hasq, r) \<Rightarrow>
     if d = CHR ''t'' then
       (True, hasq, r @ ''(?P<t>'' @ bs # ''d{4}-'' @ bs # ''d{1,2}-'' @ bs # ''d{1,2} '' @ bs # ''d{2}:''
          @ bs # ''d{2}:'' @ bs # ''d{2} '' @ bs # ''S+)'')
     else if d = CHR ''m'' then
       (True, hasq, r @ ''(?P<m>'' @ bs # ''d{4}-'' @ bs # ''d{1,2}-'' @ bs # ''d{1,2} '' @ bs # ''d{2}:''
          @ bs # ''d{2}:'' @ bs # ''d{2}'' @ bs # ''.'' @ bs # ''d+ '' @ bs # ''S+)'')
     else if d = CHR ''n'' then
       (True, hasq, r @ ''(?P<n>'' @ bs # ''d+'' @ bs # ''.'' @ bs # ''d+)'')
     else if d = CHR ''s'' then
       (ts, hasq, r @ bs # ''d{4}-'' @ bs # ''d{1,2}-'' @ bs # ''d{1,2} '' @ bs # ''d{2}:''
          @ bs # ''d{2}:'' @ bs # ''d{2} '' @ bs # ''S+'')
     else if d = CHR ''u'' then
       (ts, hasq, r @ ''(?P<u>[A-Za-z0-9_.'' @ bs # ''['' @ bs # '']-]{1,64})'')
     else if d = CHR ''d'' then
       (ts, hasq, r @ ''(?P<d>[A-Za-z0-9_.'' @ bs # ''['' @ bs # '']-]{1,64})'')
     else if d = CHR ''q'' then
       (ts, True, r @ ''(?:'')
     else
       (ts, hasq, r @ ''('' @ bs # ''S+)?''))"

text \<open>
  The loop over the prefix, on the text from index \<open>i\<close> on: a character other than
  \<^verbatim>\<open>%\<close> is quoted; a \<^verbatim>\<open>%\<close> takes the next character as its directive; a \<^verbatim>\<open>%\<close> at the
  end of the prefix ends the loop.
\<close>

fun cpLoop :: "string \<Rightarrow> bool \<times> bool \<times> string \<Rightarrow> bool \<times> bool \<times> string" where
  "cpLoop [] st = st"
| "cpLoop [c] (ts, hasq, r) =
     (if c \<noteq> CHR ''%'' then (ts, hasq, r @ QuoteMeta (string_of_byte c)) else (ts, hasq, r))"
| "cpLoop (c # d # cs) (ts, hasq, r) =
     (if c \<noteq> CHR ''%'' then cpLoop (d # cs) (ts, hasq, r @ QuoteMeta (string_of_byte c))
      else cpLoop cs (directive d (ts, hasq, r)))"

definition compilePrefix :: "string \<Rightarrow> error + regexp" where
  "compilePrefix prefix =
    (case cpLoop prefix (False, False, []) of (ts, hasq, r) \<Rightarrow>
       if \<not> ts then Inl ErrNoTimestamp
       else case regexp_Compile (if hasq then r @ '')?'' else r) of
              Inl e \<Rightarrow> Inl (ErrPattern e)
            | Inr rx \<Rightarrow> Inr rx)"

section \<open>Decoding a match: getMatchData and firstTS\<close>

text \<open>\<open>match[i]\<close>: an index outside the slice panics.\<close>

definition elemAt :: "string list \<Rightarrow> int \<Rightarrow> error + string" where
  "elemAt match i = (if 0 \<le> i \<and> nat i < length match then Inr (match ! nat i) else Inl Panic)"

text \<open>
  The \<^verbatim>\<open>if\<close> chain on \<^verbatim>\<open>idxM\<close>, \<^verbatim>\<open>idxT\<close>, \<^verbatim>\<open>idxN\<close>, which getMatchData (lines 303 to 325) and
  firstTS (lines 346 to 368) have in the same words. No branch taken leaves the zero
  time.
\<close>

definition decodeN :: "string \<Rightarrow> error + gotime" where
  "decodeN s =
    (let parts = Split s (CHR ''.'') in
     if length parts < 1 \<or> 2 < length parts then Inl (ErrWrongNFormat s)
     else case ParseInt (parts ! 0) of
       Inl e \<Rightarrow> Inl (ErrBadTimeFormat s)
     | Inr t1 \<Rightarrow>
         if length parts = 2 then
           (case ParseInt (parts ! 1) of
              Inl e \<Rightarrow> Inl (ErrBadTimeFormat s)
            | Inr t2 \<Rightarrow> Inr (time_Unix t1 (int64_of_float64_times_1e9 t2)))
         else Inr (time_Unix t1 (int64_of_float64_times_1e9 0)))"

definition parseTime :: "env \<Rightarrow> string \<Rightarrow> string \<Rightarrow> error + gotime" where
  "parseTime E layout v =
    (case time_Parse (localZone E) layout v of Inl e \<Rightarrow> Inl ErrTimeParse | Inr t \<Rightarrow> Inr t)"

definition decodeTS :: "env \<Rightarrow> string list \<Rightarrow> int \<Rightarrow> int \<Rightarrow> int \<Rightarrow> error + gotime" where
  "decodeTS E match idxT idxM idxN =
    (case (if idxM \<noteq> - 1 then elemAt match idxM else Inr []) of
       Inl e \<Rightarrow> Inl e
     | Inr m \<Rightarrow>
         if idxM \<noteq> - 1 \<and> 0 < length m then parseTime E ''2006-01-02 15:04:05.000 MST'' m
         else case (if idxT \<noteq> - 1 then elemAt match idxT else Inr []) of
           Inl e \<Rightarrow> Inl e
         | Inr t \<Rightarrow>
             if idxT \<noteq> - 1 \<and> 0 < length t then parseTime E ''2006-01-02 15:04:05 MST'' t
             else case (if idxN \<noteq> - 1 then elemAt match idxN else Inr []) of
               Inl e \<Rightarrow> Inl e
             | Inr n \<Rightarrow>
                 if idxN \<noteq> - 1 \<and> 0 < length n then decodeN n
                 else Inr zeroTime)"

text \<open>
  The loop of getMatchData over \<^verbatim>\<open>prefix.SubexpNames()\<close>, from index \<open>i\<close> on; the state is
  \<^verbatim>\<open>idxT\<close>, \<^verbatim>\<open>idxM\<close>, \<^verbatim>\<open>idxN\<close>, \<^verbatim>\<open>user\<close>, \<^verbatim>\<open>db\<close>.
\<close>

fun gmdLoop :: "string list \<Rightarrow> int \<Rightarrow> string list \<Rightarrow> int \<times> int \<times> int \<times> string \<times> string
    \<Rightarrow> error + (int \<times> int \<times> int \<times> string \<times> string)" where
  "gmdLoop [] i match st = Inr st"
| "gmdLoop (s # ss) i match (idxT, idxM, idxN, user, db) =
     (if s = ''t'' then gmdLoop ss (i + 1) match (i, idxM, idxN, user, db)
      else if s = ''m'' then gmdLoop ss (i + 1) match (idxT, i, idxN, user, db)
      else if s = ''n'' then gmdLoop ss (i + 1) match (idxT, idxM, i, user, db)
      else if s = ''u'' then
        (case elemAt match i of
           Inl e \<Rightarrow> Inl e
         | Inr u \<Rightarrow> gmdLoop ss (i + 1) match (idxT, idxM, idxN, u, db))
      else if s = ''d'' then
        (case elemAt match i of
           Inl e \<Rightarrow> Inl e
         | Inr d \<Rightarrow> gmdLoop ss (i + 1) match (idxT, idxM, idxN, user, d))
      else gmdLoop ss (i + 1) match (idxT, idxM, idxN, user, db))"

definition getMatchData :: "env \<Rightarrow> string list \<Rightarrow> regexp
    \<Rightarrow> error + (gotime \<times> string \<times> string)" where
  "getMatchData E match prefix =
    (case gmdLoop (subexpNames prefix) 0 match (- 1, - 1, - 1, [], []) of
       Inl e \<Rightarrow> Inl e
     | Inr (idxT, idxM, idxN, user, db) \<Rightarrow>
         (case decodeTS E match idxT idxM idxN of
            Inl e \<Rightarrow> Inl e
          | Inr t \<Rightarrow> Inr (t, user, db)))"

text \<open>The loop of firstTS over the names keeps the three indices only.\<close>

fun ftsLoop :: "string list \<Rightarrow> int \<Rightarrow> int \<times> int \<times> int \<Rightarrow> int \<times> int \<times> int" where
  "ftsLoop [] i st = st"
| "ftsLoop (s # ss) i (idxT, idxM, idxN) =
     ftsLoop ss (i + 1)
       (if s = ''t'' then i else idxT, if s = ''m'' then i else idxM, if s = ''n'' then i else idxN)"

definition firstTS :: "env \<Rightarrow> string \<Rightarrow> regexp \<Rightarrow> error + gotime" where
  "firstTS E buf prefix =
    (case FindSubmatch prefix buf of
       None \<Rightarrow> Inr zeroTime
     | Some matches \<Rightarrow>
         if length matches = 0 then Inr zeroTime
         else case ftsLoop (subexpNames prefix) 0 (- 1, - 1, - 1) of
           (idxT, idxM, idxN) \<Rightarrow> decodeTS E matches idxT idxM idxN)"


section \<open>Entries: processLogLine, processLogEntry and the extractors\<close>

definition severities :: "string list" where
  "severities = [''DEBUG'', ''LOG'', ''INFO'', ''NOTICE'', ''WARNING'', ''ERROR'', ''FATAL'', ''PANIC'']"

text \<open>\<^verbatim>\<open>logEntry.get\<close>: the line of the first extra with the level, or the empty text.\<close>

fun get :: "logEntryExtra list \<Rightarrow> string \<Rightarrow> string" where
  "get [] lvl = []"
| "get (e # es) lvl = (if xlevel e = lvl then xline e else get es lvl)"

text \<open>
  The text variant of processAE walks the lines of the entry with a pointer \<^verbatim>\<open>sp\<close> that
  is nil or points to the query or to the plan of the Plan under construction.
\<close>

datatype sp = SpNil | SpQuery | SpPlan

fun aeText :: "string list \<Rightarrow> Plan \<Rightarrow> sp \<Rightarrow> Plan" where
  "aeText [] p sp = p"
| "aeText (l # ls) p sp =
     (case FindStringSubmatch rxAESwitch1 l of
        Some sm \<Rightarrow> aeText ls (p\<lparr>pQuery := sm ! 1\<rparr>) SpQuery
      | None \<Rightarrow>
          (let sp' = (if MatchString rxAESwitch2 l then SpPlan else sp) in
           aeText ls
             (case sp' of
                SpNil \<Rightarrow> p
              | SpQuery \<Rightarrow> p\<lparr>pQuery := pQuery p @ l @ [CHR 0x0A]\<rparr>
              | SpPlan \<Rightarrow> p\<lparr>pPlan := pPlan p @ l @ [CHR 0x0A]\<rparr>)
             sp'))"

text \<open>The JSON variant: the text after the first line is decoded, the query taken out.\<close>

definition aeJson :: "env \<Rightarrow> string \<Rightarrow> Plan \<Rightarrow> Plan" where
  "aeJson E txt p =
    (let parts = SplitN2 txt (CHR 0x0A) in
     if length parts = 2 then
       (case json_Unmarshal E (parts ! 1) of
          None \<Rightarrow> p
        | Some obj \<Rightarrow>
            (let p1 = (case obj ''Query Text'' of
                         None \<Rightarrow> p
                       | Some q \<Rightarrow> p\<lparr>pQuery := (case q of JString x \<Rightarrow> x | _ \<Rightarrow> [])\<rparr>);
                 obj1 = obj(''Query Text'' := None)
             in case json_Marshal E obj1 of
                  None \<Rightarrow> p1
                | Some planb \<Rightarrow> p1\<lparr>pPlan := planb\<rparr>))
     else p)"

text \<open>
  processAE is called with the submatches of \<open>rxAEStart\<close>, which are five; an index
  outside a shorter slice would panic, which the model renders by leaving the collector
  as it is. The warnings that the function logs are not part of the state.
\<close>

definition processAE :: "env \<Rightarrow> collector \<Rightarrow> string list \<Rightarrow> collector" where
  "processAE E c sm =
    (if length sm < 5 then c
     else let e = currLog c;
              p = \<lparr>pDatabase = edb e, pUserName = euser e, pFormat = ''text'', pAt = Unix (et e),
                   pQuery = [], pPlan = []\<rparr>;
              p1 = (if 0 < length (sm ! 1) then aeJson E (eline e) (p\<lparr>pFormat := ''json''\<rparr>)
                    else if 0 < length (sm ! 2) then p\<lparr>pFormat := ''xml''\<rparr>
                    else if 0 < length (sm ! 3) then p\<lparr>pFormat := ''yaml''\<rparr>
                    else if 0 < length (sm ! 4) then
                      aeText (Split (eline e) (CHR 0x0A)) (p\<lparr>pFormat := ''text''\<rparr>) SpNil
                    else p)
          in c\<lparr>result := (result c)\<lparr>Plans := Plans (result c) @ [p1]\<rparr>\<rparr>)"

definition processAV :: "collector \<Rightarrow> string list \<Rightarrow> collector" where
  "processAV c sm =
    (let e = currLog c in
     if length sm \<noteq> 4 then c
     else case FindStringSubmatch rxAVElapsed (eline e) of
       None \<Rightarrow> c
     | Some sm2 \<Rightarrow>
         if length sm2 \<noteq> 2 then c
         else let elapsed = (case ParseFloat (sm2 ! 1) of Inl err \<Rightarrow> 0 | Inr v \<Rightarrow> v) in
           c\<lparr>result := (result c)\<lparr>AutoVacuums := AutoVacuums (result c) @
               [\<lparr>avAt = Unix (et e), avTable = sm ! 3, avElapsed = elapsed\<rparr>]\<rparr>\<rparr>)"

definition processDeadlock :: "collector \<Rightarrow> collector" where
  "processDeadlock c =
    (let e = currLog c;
         text = RemoveAll (get (extra e) ''DETAIL'') (CHR 0x09) @ [CHR 0x0A]
     in c\<lparr>result := (result c)\<lparr>Deadlocks := Deadlocks (result c) @
          [\<lparr>dAt = Unix (et e), dDetail = text\<rparr>]\<rparr>\<rparr>)"

definition processLogEntry :: "env \<Rightarrow> collector \<Rightarrow> collector" where
  "processLogEntry E c =
    (case FindStringSubmatch rxAEStart (eline (currLog c)) of
       Some sm \<Rightarrow> processAE E c sm
     | None \<Rightarrow>
         (case FindStringSubmatch rxAVStart (eline (currLog c)) of
            Some sm \<Rightarrow> processAV c sm
          | None \<Rightarrow>
              if eline (currLog c) = ''deadlock detected'' then processDeadlock c else c))"

definition processLogLine :: "env \<Rightarrow> collector \<Rightarrow> bool \<Rightarrow> gotime \<Rightarrow> string \<Rightarrow> string
    \<Rightarrow> string \<Rightarrow> string \<Rightarrow> collector" where
  "processLogLine E c first t user db level txt =
    (if level \<in> set severities then
       (let c1 = (if \<not> first then processLogEntry E c else c) in
        c1\<lparr>currLog := \<lparr>et = t, euser = user, edb = db, elevel = level, eline = txt, extra = []\<rparr>\<rparr>)
     else
       c\<lparr>currLog := (currLog c)\<lparr>extra := extra (currLog c) @ [\<lparr>xlevel = level, xline = txt\<rparr>]\<rparr>\<rparr>)"

section \<open>readLogLines and readLog\<close>

text \<open>
  The backward scan (lines 69 to 105): at the offset \<open>ofs\<close>, brought to 0 when negative,
  a block of 4096 bytes is read in full and the time of its first match decoded; the
  scan ends at a block whose time is set and before \<open>start\<close>, or at offset 0, and moves
  back by 4096 otherwise. \<^verbatim>\<open>io.ReadFull\<close> fails when fewer than 4096 bytes follow the
  offset.
\<close>

function scanBack :: "env \<Rightarrow> string \<Rightarrow> regexp \<Rightarrow> gotime \<Rightarrow> int \<Rightarrow> error + int" where
  "scanBack E file prefix start ofs0 =
    (let ofs = (if ofs0 < 0 then 0 else ofs0) in
     if length (drop (nat ofs) file) = 0 then Inl ErrEOF
     else if length (drop (nat ofs) file) < 4096 then Inl ErrUnexpectedEOF
     else case firstTS E (take 4096 (drop (nat ofs) file)) prefix of
       Inl e \<Rightarrow> Inl e
     | Inr ts \<Rightarrow>
         if \<not> IsZero ts \<and> Before ts start then Inr ofs
         else if ofs = 0 then Inr ofs
         else scanBack E file prefix start (ofs - 4096))"
  by pat_completeness auto
termination
  by (relation "measure (\<lambda>(E, file, prefix, start, ofs0). nat ofs0)") auto

text \<open>
  The part of a line after its prefix (lines 137 to 146): one final newline is removed,
  then a level matched by \<open>rxLogLevel\<close> is cut off. The result is the level and the text.
\<close>

definition splitLevel :: "string \<Rightarrow> string \<times> string" where
  "splitLevel line0 =
    (let txt = (if 0 < length line0 \<and> last line0 = CHR 0x0A then butlast line0 else line0) in
     case FindStringSubmatch rxLogLevel txt of
       None \<Rightarrow> ([], txt)
     | Some match \<Rightarrow>
         if 0 < length match then (match ! 1, drop (length (match ! 0)) txt) else ([], txt))"

text \<open>
  The forward pass (lines 116 to 155) over \<open>bigbuf\<close>, with \<open>pos\<close> the place of the
  current match and \<open>count\<close> the lines handed on so far. The loop need not end (a
  pattern can match the empty text, and then \<open>bigbuf\<close> never shrinks), so the function
  is partial: \<open>None\<close> is a run that does not return. A run that returns gives the
  error of readLogLines, if any, and the collector.
\<close>

partial_function (option) forward :: "env \<Rightarrow> regexp \<Rightarrow> gotime \<Rightarrow> string \<Rightarrow> (nat \<times> nat) option
    \<Rightarrow> nat \<Rightarrow> collector \<Rightarrow> (error option \<times> collector) option" where
  "forward E prefix start bigbuf pos count c =
    (case pos of
       None \<Rightarrow> Some (None, if 0 < count then processLogEntry E c else c)
     | Some (p0, p1) \<Rightarrow>
         if \<not> 0 < length bigbuf then Some (None, if 0 < count then processLogEntry E c else c)
         else case getMatchData E (case FindSubmatch prefix (drop p0 bigbuf) of
                                     None \<Rightarrow> [] | Some m \<Rightarrow> m) prefix of
           Inl e \<Rightarrow> (if e = Panic then Some (Some Panic, c) else Some (None, c))
         | Inr (t, user, db) \<Rightarrow>
             (case FindIndex prefix (drop p1 bigbuf) of
                None \<Rightarrow>
                  if \<not> Before t start then
                    forward E prefix start bigbuf None (count + 1)
                      (processLogLine E c (count = 0) t user db
                         (fst (splitLevel (drop p1 bigbuf))) (snd (splitLevel (drop p1 bigbuf))))
                  else forward E prefix start bigbuf None count c
              | Some (q0, q1) \<Rightarrow>
                  if \<not> Before t start then
                    forward E prefix start (drop p1 bigbuf) (Some (q0, q1)) (count + 1)
                      (processLogLine E c (count = 0) t user db
                         (fst (splitLevel (take q0 (drop p1 bigbuf))))
                         (snd (splitLevel (take q0 (drop p1 bigbuf)))))
                  else forward E prefix start (drop p1 bigbuf) (Some (q0, q1)) count c))"

text \<open>
  The window: \<^verbatim>\<open>time.Duration(c.logSpan) * time.Minute\<close> is a product of 64-bit integers
  (nanoseconds), and \<open>start\<close> is the current time minus the window.
\<close>

definition windowStart :: "env \<Rightarrow> collector \<Rightarrow> gotime" where
  "windowStart E c =
    (let window = wrap64 (wrap64 (int (logSpan c)) * 60000000000) in
     Add (now E) (wrap64 (- window)))"

definition readLogLines :: "env \<Rightarrow> collector \<Rightarrow> string \<Rightarrow> regexp
    \<Rightarrow> (error option \<times> collector) option" where
  "readLogLines E c filename prefix =
    (case files E filename of
       None \<Rightarrow> Some (Some ErrOpen, c)
     | Some file \<Rightarrow>
         let start = windowStart E c;
             flen = int (length file)
         in if flen \<le> 0 then Some (None, c)
            else case scanBack E file prefix start (flen - 4096) of
              Inl e \<Rightarrow> Some (Some e, c)
            | Inr ofs \<Rightarrow>
                forward E prefix start (drop (nat ofs) file)
                  (FindIndex prefix (drop (nat ofs) file)) 0 c)"

text \<open>
  readLog returns nothing; its effect is on the collector. The errors are logged and
  dropped. \<open>None\<close> is a run that gives no collector: it does not return, or it panics.
\<close>

definition readLog :: "env \<Rightarrow> collector \<Rightarrow> string \<Rightarrow> collector option" where
  "readLog E c filename =
    (case Settings (result c) ''log_line_prefix'' of
       None \<Rightarrow> Some c
     | Some prefix \<Rightarrow>
         (case compilePrefix prefix of
            Inl e \<Rightarrow> Some c
          | Inr prefixRE \<Rightarrow>
              (case readLogLines E c filename prefixRE of
                 None \<Rightarrow> None
               | Some (err, c1) \<Rightarrow> if err = Some Panic then None else Some c1)))"


section \<open>Sample inputs\<close>

text \<open>
  An environment with a given clock and given files, a process whose local zone knows
  no abbreviation, and a JSON decoder that rejects every text; a collector that has
  read nothing yet, with a given window in minutes.
\<close>

definition sampleEnv :: "gotime \<Rightarrow> (string \<rightharpoonup> string) \<Rightarrow> env" where
  "sampleEnv t fs =
    \<lparr>now = t, localZone = (\<lambda>name unix. None), files = fs,
     json_Unmarshal = (\<lambda>txt. None), json_Marshal = (\<lambda>obj. None)\<rparr>"

definition emptyEntry :: logEntry where
  "emptyEntry = \<lparr>et = zeroTime, euser = [], edb = [], elevel = [], eline = [], extra = []\<rparr>"

definition newCollector :: "nat \<Rightarrow> collector" where
  "newCollector minutes =
    \<lparr>result = \<lparr>Settings = Map.empty, Plans = [], AutoVacuums = [], Deadlocks = []\<rparr>,
     logSpan = minutes, currLog = emptyEntry\<rparr>"

text \<open>The pattern that compilePrefix makes of the prefix \<^verbatim>\<open>%n \<close> (lemma \<open>compilePrefix_n\<close>).\<close>

definition prefixN :: regexp where
  "prefixN =
    \<lparr>re = Seq (Grp 1 (Seq (Rep (Cls False [(CHR ''0'', CHR ''9'')]) 1 None)
                     (Seq (Lit (CHR ''.'')) (Rep (Cls False [(CHR ''0'', CHR ''9'')]) 1 None))))
               (Lit (CHR '' '')),
     subexpNames = [[], ''n'']\<rparr>"

text \<open>
  Two lines under the prefix \<^verbatim>\<open>%n \<close>: one whose seconds do not fit 64 bits, and a deadlock
  report.
\<close>

definition badLine :: string where
  "badLine = ''99999999999999999999.0 LOG:  x'' @ [CHR 0x0A]"

definition goodLine :: string where
  "goodLine = ''1700000000.0 ERROR:  deadlock detected'' @ [CHR 0x0A]"

section \<open>Notions of the specification\<close>

text \<open>
  The directives of a prefix format, read from left to right as PostgreSQL reads them:
  the character after a \<^verbatim>\<open>%\<close> is a directive and is not itself read as the start of
  another one (so \<^verbatim>\<open>%%t\<close> holds the directive \<^verbatim>\<open>%\<close> and the text \<^verbatim>\<open>t\<close>); a \<^verbatim>\<open>%\<close> at the end
  has no directive.
\<close>

fun directives :: "string \<Rightarrow> char list" where
  "directives [] = []"
| "directives [c] = []"
| "directives (c # d # cs) = (if c = CHR ''%'' then d # directives cs else directives (d # cs))"

section \<open>Properties\<close>

lemmas rx_eval = regexp_MustCompile_def regexp_Compile_def tcons_def escape_def lexClass_def
  lexName_def lexRepeat_def closeFrame_def isalnum_def isdigit_def udigit_def uword_def uval_def
  validInt_def digitval_def perl_d_def perl_s_def perl_w_def Let_def bs_def dq_def

subsection \<open>Files shorter than one block\<close>

lemma scanBack_short:
  "length file < 4096 \<Longrightarrow> file \<noteq> [] \<Longrightarrow> ofs0 \<le> 0 \<Longrightarrow>
   scanBack E file prefix start ofs0 = Inl ErrUnexpectedEOF"
  by (subst scanBack.simps) (auto simp: Let_def)

text \<open>
  Claim C9. A log file of length \<open>L\<close> with \<open>0 < L < 4096\<close> makes readLogLines fail with
  the error of the incomplete block read, \<^verbatim>\<open>io.ErrUnexpectedEOF\<close>, and leaves the
  collector as it was, so that no fact is extracted; the empty file is a successful
  read that changes nothing.
\<close>

theorem readLogLines_short_file:
  assumes "files E filename = Some file" and "length file < 4096"
  shows "readLogLines E c filename prefix
           = Some (if file = [] then None else Some ErrUnexpectedEOF, c)"
  using assms by (auto simp: readLogLines_def Let_def scanBack_short)

theorem readLogLines_short_file_witness:
  "files (sampleEnv zeroTime [''postgresql.log'' \<mapsto> ''LOG:  x'']) ''postgresql.log'' = Some ''LOG:  x''
   \<and> length ''LOG:  x'' < 4096
   \<and> readLogLines (sampleEnv zeroTime [''postgresql.log'' \<mapsto> ''LOG:  x'']) (newCollector 5)
        ''postgresql.log'' rxLogLevel = Some (Some ErrUnexpectedEOF, newCollector 5)"
  using readLogLines_short_file [of "sampleEnv zeroTime [''postgresql.log'' \<mapsto> ''LOG:  x'']"
      "''postgresql.log''" "''LOG:  x''" "newCollector 5" rxLogLevel]
  by (simp add: sampleEnv_def)

subsection \<open>Deadlocks\<close>

lemma AEStart_deadlock: "FindStringSubmatch rxAEStart ''deadlock detected'' = None"
  by (simp add: FindStringSubmatch_def FindSubmatch_def rxAEStart_def rx_eval)

lemma AVStart_deadlock: "FindStringSubmatch rxAVStart ''deadlock detected'' = None"
  by (simp add: FindStringSubmatch_def FindSubmatch_def rxAVStart_def rx_eval)

lemma get_find:
  "get es lvl = (case find (\<lambda>x. xlevel x = lvl) es of None \<Rightarrow> [] | Some x \<Rightarrow> xline x)"
  by (induction es) auto

text \<open>
  Claim C6. An entry whose starting text is exactly \<^verbatim>\<open>deadlock detected\<close> makes
  processLogEntry append one Deadlock and change nothing else. Its detail is the text
  of the first extra of level \<^verbatim>\<open>DETAIL\<close> (the empty text when there is none) without
  its tab characters, followed by a newline.
\<close>

theorem processLogEntry_deadlock:
  assumes "eline (currLog c) = ''deadlock detected''"
  shows "processLogEntry E c =
     c\<lparr>result := (result c)\<lparr>Deadlocks := Deadlocks (result c) @
        [\<lparr>dAt = Unix (et (currLog c)),
          dDetail = filter (\<lambda>ch. ch \<noteq> CHR 0x09)
                      (case find (\<lambda>x. xlevel x = ''DETAIL'') (extra (currLog c)) of
                         None \<Rightarrow> [] | Some x \<Rightarrow> xline x) @ [CHR 0x0A]\<rparr>]\<rparr>\<rparr>"
  using assms
  by (simp add: processLogEntry_def AEStart_deadlock AVStart_deadlock processDeadlock_def
      RemoveAll_def get_find Let_def)

theorem processLogEntry_deadlock_witness:
  "Deadlocks (result (processLogEntry (sampleEnv zeroTime Map.empty)
     ((newCollector 5)\<lparr>currLog := emptyEntry\<lparr>eline := ''deadlock detected'',
        extra := [\<lparr>xlevel = ''CONTEXT'', xline = ''x''\<rparr>,
                  \<lparr>xlevel = ''DETAIL'', xline = [CHR ''a'', CHR 0x09, CHR ''b'']\<rparr>,
                  \<lparr>xlevel = ''DETAIL'', xline = ''c''\<rparr>]\<rparr>\<rparr>)))
   = [\<lparr>dAt = - 62135596800, dDetail = [CHR ''a'', CHR ''b'', CHR 0x0A]\<rparr>]"
  using processLogEntry_deadlock [of "(newCollector 5)\<lparr>currLog := emptyEntry\<lparr>eline := ''deadlock detected'',
        extra := [\<lparr>xlevel = ''CONTEXT'', xline = ''x''\<rparr>,
                  \<lparr>xlevel = ''DETAIL'', xline = [CHR ''a'', CHR 0x09, CHR ''b'']\<rparr>,
                  \<lparr>xlevel = ''DETAIL'', xline = ''c''\<rparr>]\<rparr>\<rparr>" "sampleEnv zeroTime Map.empty"]
  by (simp add: newCollector_def emptyEntry_def Unix_def zeroTime_def wrap64_def unixToInternal_def)


subsection \<open>The prefix compiler\<close>

lemmas cp_eval = compilePrefix_def directive_def string_of_byte_def special_def rx_eval

lemmas decode_eval = getMatchData_def firstTS_def decodeTS_def elemAt_def decodeN_def
  ParseInt_def digitsval_def digitval_def isdigit_def int64_of_float64_times_1e9_def
  round53_def time_Unix_def quo_def wrap64_def unixToInternal_def Unix_def parseTime_def Let_def

lemma compilePrefix_n: "compilePrefix ''%n '' = Inr prefixN"
  by (simp add: cp_eval prefixN_def)

lemma cpLoop_ts:
  "fst (cpLoop p (ts, hasq, r)) =
     (ts \<or> (\<exists>d\<in>set (directives p). d = CHR ''t'' \<or> d = CHR ''m'' \<or> d = CHR ''n''))"
  by (induction p "(ts, hasq, r)" arbitrary: ts hasq r rule: cpLoop.induct)
     (auto simp: directive_def)

text \<open>
  Claim C2. compilePrefix returns the error \<^verbatim>\<open>no timestamp escape sequence was found in
  log_line_prefix\<close> (and so no pattern) exactly for the formats that hold none of the
  directives \<^verbatim>\<open>%t\<close>, \<^verbatim>\<open>%m\<close>, \<^verbatim>\<open>%n\<close>: a format without them fails with this error, a format
  with one of them does not (it gives a pattern, or the error of the pattern compiler).
\<close>

theorem compilePrefix_timestamp_required:
  "(compilePrefix prefix = Inl ErrNoTimestamp) =
   (\<forall>d\<in>set (directives prefix). d \<noteq> CHR ''t'' \<and> d \<noteq> CHR ''m'' \<and> d \<noteq> CHR ''n'')"
proof -
  obtain ts hasq r where l: "cpLoop prefix (False, False, []) = (ts, hasq, r)"
    by (cases "cpLoop prefix (False, False, [])") auto
  have "ts = (\<exists>d\<in>set (directives prefix). d = CHR ''t'' \<or> d = CHR ''m'' \<or> d = CHR ''n'')"
    using cpLoop_ts [of prefix False False "[]"] l by simp
  then show ?thesis
    by (auto simp: compilePrefix_def l split: sum.splits)
qed

theorem compilePrefix_timestamp_required_witness:
  "compilePrefix ''[%p] %u@%d '' = Inl ErrNoTimestamp
   \<and> compilePrefix ''%m [%p] '' \<noteq> Inl ErrNoTimestamp"
  using compilePrefix_timestamp_required [of "''[%p] %u@%d ''"]
        compilePrefix_timestamp_required [of "''%m [%p] ''"]
  by simp

subsection \<open>The epoch timestamp\<close>

text \<open>
  Claim C4. The claim has the capture \<^verbatim>\<open>1700000000.5\<close> of \<^verbatim>\<open>%n\<close> decode to 1700000000
  seconds and 500000000 nanoseconds. The code multiplies the integer read from the
  fraction digits by \<open>10^9\<close> and hands it to \<^verbatim>\<open>time.Unix\<close> as nanoseconds, which makes
  whole seconds of the digits: both getMatchData and firstTS decode the capture to
  1700000005 seconds and no nanoseconds.
\<close>

theorem epoch_fraction_decoded_as_seconds:
  "compilePrefix ''%n '' = Inr prefixN
   \<and> FindSubmatch prefixN ''1700000000.5 LOG:  x'' = Some [''1700000000.5 '', ''1700000000.5'']
   \<and> getMatchData E [''1700000000.5 '', ''1700000000.5''] prefixN
       = Inr (time_Unix 1700000005 0, [], [])
   \<and> firstTS E ''1700000000.5 LOG:  x'' prefixN = Inr (time_Unix 1700000005 0)
   \<and> Unix (time_Unix 1700000005 0) = 1700000005 \<and> nsec (time_Unix 1700000005 0) = 0
   \<and> time_Unix 1700000005 0 \<noteq> time_Unix 1700000000 500000000"
  by (simp add: compilePrefix_n) (simp add: prefixN_def FindSubmatch_def decode_eval)

subsection \<open>A timestamp that does not decode\<close>

lemma bad_decode:
  "getMatchData E (case FindSubmatch prefixN (drop 0 (badLine @ goodLine)) of
                     None \<Rightarrow> [] | Some m \<Rightarrow> m) prefixN
    = Inl (ErrBadTimeFormat ''99999999999999999999.0'')"
  by (simp add: badLine_def goodLine_def prefixN_def FindSubmatch_def decode_eval)

lemma bad_index: "FindIndex prefixN (badLine @ goodLine) = Some (0, 23)"
  by (simp add: badLine_def goodLine_def prefixN_def FindIndex_def)

lemma good_forward:
  "forward (sampleEnv (time_Unix 1700000060 0) Map.empty) prefixN
     (windowStart (sampleEnv (time_Unix 1700000060 0) Map.empty) (newCollector 5))
     goodLine (FindIndex prefixN goodLine) 0 (newCollector 5)
   = Some (None, (newCollector 5)
       \<lparr>result := \<lparr>Settings = Map.empty, Plans = [], AutoVacuums = [],
                    Deadlocks = [\<lparr>dAt = 1700000000, dDetail = [CHR 0x0A]\<rparr>]\<rparr>,
        currLog := \<lparr>et = time_Unix 1700000000 0, euser = [], edb = [], elevel = ''ERROR'',
                    eline = ''deadlock detected'', extra = []\<rparr>\<rparr>)"
  apply (subst forward.simps)
  apply (simp add: goodLine_def prefixN_def FindIndex_def FindSubmatch_def decode_eval
       windowStart_def sampleEnv_def newCollector_def Add_def Before_def)
  apply (subst forward.simps)
  apply (simp add: processLogLine_def severities_def splitLevel_def FindStringSubmatch_def
      FindSubmatch_def rxLogLevel_def rx_eval processLogEntry_def rxAEStart_def rxAVStart_def
      processDeadlock_def RemoveAll_def emptyEntry_def Unix_def wrap64_def unixToInternal_def)
  done

text \<open>
  Claim C5, as stated, fails. The claim has the caller skip a line whose timestamp does
  not decode and go on with the lines after it. In the code the forward pass returns
  at that line. Under the prefix \<^verbatim>\<open>%n \<close>, the seconds of \<open>badLine\<close> do not fit 64 bits
  and getMatchData fails; a run over \<open>badLine\<close> followed by \<open>goodLine\<close> leaves the
  collector as it was, while a run over \<open>goodLine\<close> alone records the deadlock.
\<close>

theorem decode_error_skips_line_counterexample:
  "compilePrefix ''%n '' = Inr prefixN
   \<and> forward (sampleEnv (time_Unix 1700000060 0) Map.empty) prefixN
        (windowStart (sampleEnv (time_Unix 1700000060 0) Map.empty) (newCollector 5))
        (badLine @ goodLine) (FindIndex prefixN (badLine @ goodLine)) 0 (newCollector 5)
       = Some (None, newCollector 5)
   \<and> forward (sampleEnv (time_Unix 1700000060 0) Map.empty) prefixN
        (windowStart (sampleEnv (time_Unix 1700000060 0) Map.empty) (newCollector 5))
        goodLine (FindIndex prefixN goodLine) 0 (newCollector 5)
       = Some (None, (newCollector 5)
           \<lparr>result := \<lparr>Settings = Map.empty, Plans = [], AutoVacuums = [],
                        Deadlocks = [\<lparr>dAt = 1700000000, dDetail = [CHR 0x0A]\<rparr>]\<rparr>,
            currLog := \<lparr>et = time_Unix 1700000000 0, euser = [], edb = [], elevel = ''ERROR'',
                        eline = ''deadlock detected'', extra = []\<rparr>\<rparr>)"
proof -
  have "forward (sampleEnv (time_Unix 1700000060 0) Map.empty) prefixN
        (windowStart (sampleEnv (time_Unix 1700000060 0) Map.empty) (newCollector 5))
        (badLine @ goodLine) (Some (0, 23)) 0 (newCollector 5) = Some (None, newCollector 5)"
    using bad_decode [of "sampleEnv (time_Unix 1700000060 0) Map.empty"]
    by (subst forward.simps) (simp add: badLine_def)
  then show ?thesis
    by (simp add: compilePrefix_n bad_index good_forward)
qed

text \<open>
  Claim C5, amended. When the timestamp of a matched line does not decode, the forward
  pass ends at that line: readLogLines returns without an error and with the collector
  as it was before the line, whatever follows in the file; no later line is processed
  and the entry in progress is not handed to processLogEntry.
\<close>

theorem forward_stops_at_decode_error:
  assumes "bigbuf \<noteq> []"
    and "getMatchData E (case FindSubmatch prefix (drop p0 bigbuf) of
                           None \<Rightarrow> [] | Some m \<Rightarrow> m) prefix = Inl e"
    and "e \<noteq> Panic"
  shows "forward E prefix start bigbuf (Some (p0, p1)) count c = Some (None, c)"
  using assms by (subst forward.simps) simp

theorem forward_stops_at_decode_error_witness:
  "badLine @ goodLine \<noteq> []
   \<and> getMatchData (sampleEnv zeroTime Map.empty)
        (case FindSubmatch prefixN (drop 0 (badLine @ goodLine)) of None \<Rightarrow> [] | Some m \<Rightarrow> m)
        prefixN = Inl (ErrBadTimeFormat ''99999999999999999999.0'')
   \<and> ErrBadTimeFormat ''99999999999999999999.0'' \<noteq> Panic
   \<and> forward (sampleEnv zeroTime Map.empty) prefixN zeroTime (badLine @ goodLine)
        (FindIndex prefixN (badLine @ goodLine)) 0 (newCollector 5) = Some (None, newCollector 5)"
  using forward_stops_at_decode_error [of "badLine @ goodLine" "sampleEnv zeroTime Map.empty"
     prefixN 0 "ErrBadTimeFormat ''99999999999999999999.0''" zeroTime 23 0 "newCollector 5"]
     bad_decode [of "sampleEnv zeroTime Map.empty"]
  by (simp add: bad_index) (simp add: badLine_def)

end
